theory Spec2Isabelle
  imports Main "HOL-Library.Log_Nat" "HOL-Library.Monad_Syntax"
begin

section \<open>Python floats\<close>

text \<open>
  Every amount and balance of \<^verbatim>\<open>atm_idle.py\<close> is a Python \<^verbatim>\<open>float\<close>, an IEEE 754
  binary64 number. A float is modelled by its value: not-a-number, the two infinities, or
  the exact rational a finite float denotes. The two zeros \<^verbatim>\<open>0.0\<close> and \<^verbatim>\<open>-0.0\<close>, which
  Python's comparisons cannot tell apart, are both \<open>Fin 0\<close>.
\<close>

datatype pyfloat = NaN | NInf | Fin rat | PInf

text \<open>
  Rounding to the nearest integer, ties to the even one: the rounding of the last kept
  bit of the significand.
\<close>

definition round_half_even :: "rat \<Rightarrow> int" where
  "round_half_even s =
     (let f = \<lfloor>s\<rfloor>; d = s - of_int f
      in if d < 1 / 2 then f
         else if 1 / 2 < d then f + 1
         else if even f then f else f + 1)"

text \<open>The exponent \<open>k\<close> with \<open>2 ^ k \<le> q < 2 ^ (k + 1)\<close>, for a positive rational \<open>q\<close>.\<close>

definition ilog2 :: "rat \<Rightarrow> int" where
  "ilog2 q = (if 1 \<le> q then bitlen \<lfloor>q\<rfloor> - 1 else - bitlen (\<lceil>1 / q\<rceil> - 1))"

text \<open>
  The binary64 result of an exact value: 53 significant bits, the unit in the last place
  no smaller than \<open>2 ^ -1074\<close> (subnormal numbers), round to nearest with ties to even,
  and overflow to an infinity when the rounded value reaches \<open>2 ^ 1024\<close>.
\<close>

definition rnd :: "rat \<Rightarrow> pyfloat" where
  "rnd q =
     (if q = 0 then Fin 0
      else let e = max (ilog2 \<bar>q\<bar> - 52) (- 1074);
               n = round_half_even (q / 2 powi e);
               r = of_int n * 2 powi e
           in if 2 ^ 1024 \<le> r then PInf
              else if r \<le> - (2 ^ 1024) then NInf
              else Fin r)"

text \<open>
  Python's \<^verbatim>\<open>+\<close>, \<^verbatim>\<open>-\<close>, \<^verbatim>\<open><\<close> and \<^verbatim>\<open><=\<close> on floats, and the float \<^verbatim>\<open>0.0\<close> (to which the
  integer literal \<^verbatim>\<open>0\<close> of \<^verbatim>\<open>amt <= 0\<close> compares equal). A comparison with not-a-number is
  false; Python's \<^verbatim>\<open>a > b\<close> is \<open>b < a\<close>.
\<close>

instantiation pyfloat :: "{zero, plus, minus, ord}"
begin

definition zero_pyfloat :: pyfloat where
  "zero_pyfloat = Fin 0"

fun plus_pyfloat :: "pyfloat \<Rightarrow> pyfloat \<Rightarrow> pyfloat" where
  "plus_pyfloat NaN y = NaN"
| "plus_pyfloat x NaN = NaN"
| "plus_pyfloat PInf NInf = NaN"
| "plus_pyfloat NInf PInf = NaN"
| "plus_pyfloat PInf y = PInf"
| "plus_pyfloat x PInf = PInf"
| "plus_pyfloat NInf y = NInf"
| "plus_pyfloat x NInf = NInf"
| "plus_pyfloat (Fin a) (Fin b) = rnd (a + b)"

fun minus_pyfloat :: "pyfloat \<Rightarrow> pyfloat \<Rightarrow> pyfloat" where
  "minus_pyfloat NaN y = NaN"
| "minus_pyfloat x NaN = NaN"
| "minus_pyfloat PInf PInf = NaN"
| "minus_pyfloat NInf NInf = NaN"
| "minus_pyfloat PInf y = PInf"
| "minus_pyfloat x NInf = PInf"
| "minus_pyfloat NInf y = NInf"
| "minus_pyfloat x PInf = NInf"
| "minus_pyfloat (Fin a) (Fin b) = rnd (a - b)"

fun less_eq_pyfloat :: "pyfloat \<Rightarrow> pyfloat \<Rightarrow> bool" where
  "less_eq_pyfloat NaN y = False"
| "less_eq_pyfloat x NaN = False"
| "less_eq_pyfloat NInf y = True"
| "less_eq_pyfloat x PInf = True"
| "less_eq_pyfloat (Fin a) (Fin b) = (a \<le> b)"
| "less_eq_pyfloat x y = False"

fun less_pyfloat :: "pyfloat \<Rightarrow> pyfloat \<Rightarrow> bool" where
  "less_pyfloat NaN y = False"
| "less_pyfloat x NaN = False"
| "less_pyfloat PInf y = False"
| "less_pyfloat x NInf = False"
| "less_pyfloat (Fin a) (Fin b) = (a < b)"
| "less_pyfloat x y = True"

instance ..

end

section \<open>Python strings\<close>

text \<open>
  A Python \<^verbatim>\<open>str\<close> is a sequence of Unicode code points: \<^verbatim>\<open>len\<close> counts them, and
  \<^verbatim>\<open>==\<close> compares them one by one. A string is modelled as the list of its code points.
  \<open>py\<close> is the string of a literal of the program, or of a text typed in ASCII.
\<close>

type_synonym pystr = "nat list"

definition py :: "string \<Rightarrow> pystr" where
  "py s = map of_char s"

section \<open>Data model\<close>

text \<open>
  An entry of an account's \<^verbatim>\<open>"transactions"\<close> list, the dictionary that
  \<^verbatim>\<open>add_transaction\<close> builds: keys \<^verbatim>\<open>"time"\<close>, \<^verbatim>\<open>"type"\<close>, \<^verbatim>\<open>"amount"\<close>, \<^verbatim>\<open>"remark"\<close>
  and \<^verbatim>\<open>"balance"\<close>.
\<close>

record transaction =
  tx_time :: pystr
  tx_type :: pystr
  tx_amount :: pyfloat
  tx_remark :: pystr
  tx_balance :: pyfloat

text \<open>
  An account, the dictionary that \<^verbatim>\<open>create_account\<close> builds: keys \<^verbatim>\<open>"name"\<close>, \<^verbatim>\<open>"pin"\<close>,
  \<^verbatim>\<open>"balance"\<close> and \<^verbatim>\<open>"transactions"\<close>.
\<close>

record account =
  name :: pystr
  pin :: pystr
  balance :: pyfloat
  transactions :: "transaction list"

text \<open>The dictionary \<^verbatim>\<open>accounts\<close>, from account numbers to accounts.\<close>

type_synonym accounts = "pystr \<rightharpoonup> account"

section \<open>JSON documents\<close>

text \<open>
  Modelled from the documentation of Python's \<^verbatim>\<open>json\<close> module, which the program
  imports and the source does not contain. A JSON document is the value it denotes:
  \<^verbatim>\<open>null\<close>, \<^verbatim>\<open>true\<close> and \<^verbatim>\<open>false\<close>, a number, a string, an array, or an object, which
  maps names to values. By the module's conversion table \<^verbatim>\<open>json.dump\<close> writes a \<^verbatim>\<open>dict\<close>
  as an object, a \<^verbatim>\<open>list\<close> as an array, a \<^verbatim>\<open>str\<close> as a string and a \<^verbatim>\<open>float\<close> as a
  number (\<^verbatim>\<open>NaN\<close>, \<^verbatim>\<open>Infinity\<close> and \<^verbatim>\<open>-Infinity\<close> for the floats that are not finite), and
  \<^verbatim>\<open>json.load\<close> reads them back the same way; a number written without a fraction or an
  exponent is read as an \<^verbatim>\<open>int\<close>. The text of the document (indentation, escapes, the
  digits of a number) is not modelled: a float is written with the digits of its \<^verbatim>\<open>repr\<close>,
  which \<^verbatim>\<open>float\<close> reads back as the same float.
\<close>

datatype json =
  JNull | JBool bool | JInt int | JNumber pyfloat | JString pystr
  | JArray "json list" | JObject "pystr \<Rightarrow> json option"

text \<open>What \<^verbatim>\<open>json.dump\<close> writes for an entry, for an account and for the dictionary.\<close>

definition transaction_to_json :: "transaction \<Rightarrow> json" where
  "transaction_to_json e =
     JObject [py ''time'' \<mapsto> JString (tx_time e), py ''type'' \<mapsto> JString (tx_type e),
              py ''amount'' \<mapsto> JNumber (tx_amount e),
              py ''remark'' \<mapsto> JString (tx_remark e),
              py ''balance'' \<mapsto> JNumber (tx_balance e)]"

definition account_to_json :: "account \<Rightarrow> json" where
  "account_to_json a =
     JObject [py ''name'' \<mapsto> JString (name a), py ''pin'' \<mapsto> JString (pin a),
              py ''balance'' \<mapsto> JNumber (balance a),
              py ''transactions'' \<mapsto> JArray (map transaction_to_json (transactions a))]"

definition json_dump :: "accounts \<Rightarrow> json" where
  "json_dump m = JObject (\<lambda>k. map_option account_to_json (m k))"

text \<open>
  What \<^verbatim>\<open>json.load\<close> builds. It returns whatever the document denotes; the records of
  this model hold an entry, an account and a dictionary of accounts as the program
  builds them, so a document of another shape (on which the program would fail at its
  first access) has no value here, \<open>None\<close>.
\<close>

definition as_object :: "json \<Rightarrow> (pystr \<Rightarrow> json option) option" where
  "as_object v = (case v of JObject m \<Rightarrow> Some m | _ \<Rightarrow> None)"

definition as_string :: "json option \<Rightarrow> pystr option" where
  "as_string v = (case v of Some (JString s) \<Rightarrow> Some s | _ \<Rightarrow> None)"

definition as_float :: "json option \<Rightarrow> pyfloat option" where
  "as_float v = (case v of Some (JNumber x) \<Rightarrow> Some x | _ \<Rightarrow> None)"

definition as_array :: "json option \<Rightarrow> json list option" where
  "as_array v = (case v of Some (JArray xs) \<Rightarrow> Some xs | _ \<Rightarrow> None)"

definition json_to_transaction :: "json \<Rightarrow> transaction option" where
  "json_to_transaction j =
     do {
       m \<leftarrow> as_object j;
       t \<leftarrow> as_string (m (py ''time''));
       ty \<leftarrow> as_string (m (py ''type''));
       a \<leftarrow> as_float (m (py ''amount''));
       r \<leftarrow> as_string (m (py ''remark''));
       b \<leftarrow> as_float (m (py ''balance''));
       Some \<lparr>tx_time = t, tx_type = ty, tx_amount = a, tx_remark = r, tx_balance = b\<rparr>
     }"

definition json_to_account :: "json \<Rightarrow> account option" where
  "json_to_account j =
     do {
       m \<leftarrow> as_object j;
       n \<leftarrow> as_string (m (py ''name''));
       p \<leftarrow> as_string (m (py ''pin''));
       b \<leftarrow> as_float (m (py ''balance''));
       ts \<leftarrow> as_array (m (py ''transactions''));
       es \<leftarrow> those (map json_to_transaction ts);
       Some \<lparr>name = n, pin = p, balance = b, transactions = es\<rparr>
     }"

definition json_load :: "json \<Rightarrow> accounts option" where
  "json_load j =
     do {
       m \<leftarrow> as_object j;
       if \<forall>v \<in> ran m. json_to_account v \<noteq> None
       then Some (\<lambda>k. Option.bind (m k) json_to_account)
       else None
     }"

section \<open>State and outcomes\<close>

text \<open>
  The file \<^verbatim>\<open>accounts.json\<close> holds a JSON document, or a text that is not one.
\<close>

datatype contents = Garbage | Document json

text \<open>
  The state the functions work on: the dictionary \<^verbatim>\<open>accounts\<close>, which they mutate in
  place, and the file \<^verbatim>\<open>accounts.json\<close>, \<open>None\<close> while it does not exist.
\<close>

record world =
  accounts :: accounts
  snapshot :: "contents option"

text \<open>
  What a function reports. \<open>Done\<close> is the run to the last line, with the success message
  (\<^verbatim>\<open>(True, "Account created.")\<close> for \<^verbatim>\<open>create_account\<close>). The failures are the early
  returns, named as the specification names them, and the exceptions nothing catches:
  \<^item> \<open>AlreadyExists\<close>: \<^verbatim>\<open>(False, "Account already exists.")\<close>;
  \<^item> \<open>InvalidAmount\<close>: \<^verbatim>\<open>"Invalid amount."\<close> (the \<^verbatim>\<open>ValueError\<close> of \<^verbatim>\<open>float\<close>) and
    \<^verbatim>\<open>"Amount must be positive."\<close>;
  \<^item> \<open>InsufficientFunds\<close>: \<^verbatim>\<open>"Insufficient funds."\<close>;
  \<^item> \<open>UnknownDestination\<close>: \<^verbatim>\<open>"Destination account does not exist."\<close>;
  \<^item> \<open>WrongPin\<close>: \<^verbatim>\<open>"Current PIN incorrect."\<close>;
  \<^item> \<open>Mismatch\<close>: \<^verbatim>\<open>"PIN mismatch."\<close>;
  \<^item> \<open>WeakPin\<close>: \<^verbatim>\<open>"PIN must be numeric and at least 4 digits."\<close>;
  \<^item> \<open>KeyError\<close>: the exception of \<^verbatim>\<open>accounts[acct_no]\<close> for an account number that is
    not in the dictionary;
  \<^item> \<open>ParseError\<close>: the exception of \<^verbatim>\<open>json.load\<close> on a file that is not a JSON
    document;
  \<^item> \<open>TypeError\<close>: a JSON document that is not a dictionary of accounts.
\<close>

datatype error =
  AlreadyExists | InvalidAmount | InsufficientFunds | UnknownDestination
  | WrongPin | Mismatch | WeakPin | KeyError | ParseError | TypeError

datatype outcome = Done | Failed error

section \<open>Persistence\<close>

text \<open>
  \<^verbatim>\<open>load_accounts\<close> returns the empty dictionary when the file does not exist, and what
  \<^verbatim>\<open>json.load\<close> reads from it otherwise.
\<close>

definition load_accounts :: "world \<Rightarrow> error + accounts" where
  "load_accounts w =
     (case snapshot w of
        None \<Rightarrow> Inr Map.empty
      | Some Garbage \<Rightarrow> Inl ParseError
      | Some (Document j) \<Rightarrow>
          (case json_load j of None \<Rightarrow> Inl TypeError | Some m \<Rightarrow> Inr m))"

text \<open>\<^verbatim>\<open>save_accounts\<close> overwrites the file with the dump of the whole dictionary.\<close>

definition save_accounts :: "world \<Rightarrow> world" where
  "save_accounts w = w\<lparr>snapshot := Some (Document (json_dump (accounts w)))\<rparr>"

section \<open>Account helpers\<close>

text \<open>
  \<^verbatim>\<open>add_transaction\<close> appends one entry to the ledger of \<open>acct_no\<close>; the entry records
  the balance the account has at that moment. \<open>now\<close> is the reading of the clock,
  \<^verbatim>\<open>datetime.now().strftime(...)\<close>. \<open>None\<close> is the \<^verbatim>\<open>KeyError\<close> of \<^verbatim>\<open>accounts[acct_no]\<close>.
\<close>

definition add_transaction ::
  "world \<Rightarrow> pystr \<Rightarrow> pystr \<Rightarrow> pyfloat \<Rightarrow> pystr \<Rightarrow> pystr \<Rightarrow> world option" where
  "add_transaction w acct_no ty amount remark now =
     (case accounts w acct_no of
        None \<Rightarrow> None
      | Some acct \<Rightarrow>
          let entry = \<lparr>tx_time = now, tx_type = ty, tx_amount = amount,
                       tx_remark = remark, tx_balance = balance acct\<rparr>
          in Some (w\<lparr>accounts := (accounts w)
                       (acct_no \<mapsto> acct\<lparr>transactions := transactions acct @ [entry]\<rparr>)\<rparr>))"

text \<open>
  \<^verbatim>\<open>create_account\<close>. \<open>initial_balance\<close> is \<open>None\<close> when the caller leaves the argument
  out, and the default \<^verbatim>\<open>0.0\<close> is taken. \<^verbatim>\<open>str(pin)\<close> and \<^verbatim>\<open>float(initial_balance)\<close> are the
  identity on the string and the float that \<^verbatim>\<open>main\<close> passes.
\<close>

definition create_account ::
  "world \<Rightarrow> pystr \<Rightarrow> pystr \<Rightarrow> pystr \<Rightarrow> pyfloat option \<Rightarrow> pystr \<Rightarrow> world \<times> outcome" where
  "create_account w acct_no nm p initial_balance now =
     (if acct_no \<in> dom (accounts w) then (w, Failed AlreadyExists)
      else
        let b = (case initial_balance of None \<Rightarrow> 0 | Some x \<Rightarrow> x);
            w1 = w\<lparr>accounts := (accounts w)
                   (acct_no \<mapsto> \<lparr>name = nm, pin = p, balance = b, transactions = []\<rparr>)\<rparr>
        in case add_transaction w1 acct_no (py ''Account Created'') 0
                  (py ''Initial account setup'') now of
             None \<Rightarrow> (w1, Failed KeyError)
           | Some w2 \<Rightarrow> (save_accounts w2, Done))"

section \<open>ATM operations\<close>

text \<open>
  The text typed at a prompt is an argument. For an amount it is the result of
  \<^verbatim>\<open>float(input(...).strip())\<close>: \<open>None\<close> when \<^verbatim>\<open>float\<close> raises \<^verbatim>\<open>ValueError\<close>, the float
  otherwise (\<^verbatim>\<open>float\<close> also accepts \<^verbatim>\<open>"nan"\<close> and \<^verbatim>\<open>"inf"\<close>).
\<close>

definition deposit :: "world \<Rightarrow> pystr \<Rightarrow> pyfloat option \<Rightarrow> pystr \<Rightarrow> world \<times> outcome" where
  "deposit w acct_no inp now =
     (case inp of
        None \<Rightarrow> (w, Failed InvalidAmount)
      | Some amt \<Rightarrow>
          if amt \<le> 0 then (w, Failed InvalidAmount)
          else case accounts w acct_no of
            None \<Rightarrow> (w, Failed KeyError)
          | Some acct \<Rightarrow>
              let w1 = w\<lparr>accounts := (accounts w)
                         (acct_no \<mapsto> acct\<lparr>balance := balance acct + amt\<rparr>)\<rparr>
              in case add_transaction w1 acct_no (py ''Deposit'') amt
                        (py ''Cash deposit'') now of
                   None \<Rightarrow> (w1, Failed KeyError)
                 | Some w2 \<Rightarrow> (save_accounts w2, Done))"

definition withdraw :: "world \<Rightarrow> pystr \<Rightarrow> pyfloat option \<Rightarrow> pystr \<Rightarrow> world \<times> outcome" where
  "withdraw w acct_no inp now =
     (case inp of
        None \<Rightarrow> (w, Failed InvalidAmount)
      | Some amt \<Rightarrow>
          if amt \<le> 0 then (w, Failed InvalidAmount)
          else case accounts w acct_no of
            None \<Rightarrow> (w, Failed KeyError)
          | Some acct \<Rightarrow>
              if balance acct < amt then (w, Failed InsufficientFunds)
              else
                let w1 = w\<lparr>accounts := (accounts w)
                           (acct_no \<mapsto> acct\<lparr>balance := balance acct - amt\<rparr>)\<rparr>
                in case add_transaction w1 acct_no (py ''Withdrawal'') amt
                          (py ''Cash withdrawal'') now of
                     None \<Rightarrow> (w1, Failed KeyError)
                   | Some w2 \<Rightarrow> (save_accounts w2, Done))"

text \<open>
  \<^verbatim>\<open>transfer\<close>. The destination's balance is read after the source's balance has been
  written, from the same dictionary; the two entries are stamped by two readings of the
  clock, \<open>now1\<close> and \<open>now2\<close>.
\<close>

definition transfer ::
  "world \<Rightarrow> pystr \<Rightarrow> pystr \<Rightarrow> pyfloat option \<Rightarrow> pystr \<Rightarrow> pystr \<Rightarrow> world \<times> outcome" where
  "transfer w acct_no to_acct inp now1 now2 =
     (if to_acct \<notin> dom (accounts w) then (w, Failed UnknownDestination)
      else case inp of
        None \<Rightarrow> (w, Failed InvalidAmount)
      | Some amt \<Rightarrow>
          if amt \<le> 0 then (w, Failed InvalidAmount)
          else case accounts w acct_no of
            None \<Rightarrow> (w, Failed KeyError)
          | Some src \<Rightarrow>
              if balance src < amt then (w, Failed InsufficientFunds)
              else
                let w1 = w\<lparr>accounts := (accounts w)
                           (acct_no \<mapsto> src\<lparr>balance := balance src - amt\<rparr>)\<rparr>
                in case accounts w1 to_acct of
                  None \<Rightarrow> (w1, Failed KeyError)
                | Some dst \<Rightarrow>
                    let w2 = w1\<lparr>accounts := (accounts w1)
                               (to_acct \<mapsto> dst\<lparr>balance := balance dst + amt\<rparr>)\<rparr>
                    in case add_transaction w2 acct_no (py ''Transfer Out'') amt
                              (py ''To '' @ to_acct) now1 of
                      None \<Rightarrow> (w2, Failed KeyError)
                    | Some w3 \<Rightarrow>
                        (case add_transaction w3 to_acct (py ''Transfer In'') amt
                                (py ''From '' @ acct_no) now2 of
                           None \<Rightarrow> (w3, Failed KeyError)
                         | Some w4 \<Rightarrow> (save_accounts w4, Done)))"

text \<open>
  \<^verbatim>\<open>str.isdigit\<close>: the string is not empty and every character of it is a digit. Which
  code points are digits is a table of the Unicode database that the interpreter carries
  (the characters whose numeric type is Digit or Decimal: \<^verbatim>\<open>0\<close> to \<^verbatim>\<open>9\<close>, and the digits
  of other scripts); the source does not contain it, and it is the parameter \<open>digit\<close>.
\<close>

definition isdigit :: "(nat \<Rightarrow> bool) \<Rightarrow> pystr \<Rightarrow> bool" where
  "isdigit digit s = (s \<noteq> [] \<and> list_all digit s)"

text \<open>
  \<^verbatim>\<open>change_pin\<close>; \<open>old\<close>, \<open>new\<close> and \<open>confirm\<close> are the three texts typed, stripped.
\<close>

definition change_pin ::
  "(nat \<Rightarrow> bool) \<Rightarrow> world \<Rightarrow> pystr \<Rightarrow> pystr \<Rightarrow> pystr \<Rightarrow> pystr \<Rightarrow> pystr
     \<Rightarrow> world \<times> outcome" where
  "change_pin digit w acct_no old new confirm now =
     (case accounts w acct_no of
        None \<Rightarrow> (w, Failed KeyError)
      | Some acct \<Rightarrow>
          if old \<noteq> pin acct then (w, Failed WrongPin)
          else if new \<noteq> confirm then (w, Failed Mismatch)
          else if \<not> isdigit digit new \<or> length new < 4 then (w, Failed WeakPin)
          else
            let w1 = w\<lparr>accounts := (accounts w)(acct_no \<mapsto> acct\<lparr>pin := new\<rparr>)\<rparr>
            in case add_transaction w1 acct_no (py ''PIN Change'') 0
                      (py ''PIN updated'') now of
                 None \<Rightarrow> (w1, Failed KeyError)
               | Some w2 \<Rightarrow> (save_accounts w2, Done))"

section \<open>States of the program\<close>

text \<open>
  The state in which \<^verbatim>\<open>main\<close> starts when \<^verbatim>\<open>accounts.json\<close> does not exist:
  \<^verbatim>\<open>load_accounts\<close> returns the empty dictionary.
\<close>

definition empty_world :: world where
  "empty_world = \<lparr>accounts = Map.empty, snapshot = None\<rparr>"

text \<open>
  The state after \<^verbatim>\<open>main\<close> has created its two demo accounts,
  \<^verbatim>\<open>create_account(accounts, "1001", "Alice", "1234", 5000.0)\<close> and
  \<^verbatim>\<open>create_account(accounts, "1002", "Bob", "2345", 3000.0)\<close>.
\<close>

definition demo_world :: world where
  "demo_world =
     fst (create_account
            (fst (create_account empty_world (py ''1001'') (py ''Alice'') (py ''1234'')
                    (Some (Fin 5000)) (py ''2024-01-01 09:00:00'')))
            (py ''1002'') (py ''Bob'') (py ''2345'') (Some (Fin 3000))
            (py ''2024-01-01 09:00:01''))"

text \<open>
  States that the second entry of \<^verbatim>\<open>main\<close>'s menu reaches, where the user chooses the
  account number, the name, the PIN and the initial deposit: an account opened with the
  initial deposit \<^verbatim>\<open>-5\<close>, and one opened with \<^verbatim>\<open>9007199254740994\<close>, which is \<open>2 ^ 53 + 2\<close>.
\<close>

definition overdrawn_world :: world where
  "overdrawn_world =
     fst (create_account empty_world (py ''3001'') (py ''Carol'') (py ''9999'')
            (Some (Fin (- 5))) (py ''2024-01-01 09:00:00''))"

definition rich_world :: world where
  "rich_world =
     fst (create_account empty_world (py ''4001'') (py ''Dave'') (py ''4444'')
            (Some (Fin 9007199254740994)) (py ''2024-01-01 09:00:00''))"

section \<open>Invariants\<close>

text \<open>Every balance of the dictionary is non-negative: at least zero.\<close>

definition all_balances_ge_zero :: "world \<Rightarrow> bool" where
  "all_balances_ge_zero w = (\<forall>k acct. accounts w k = Some acct \<longrightarrow> 0 \<le> balance acct)"

text \<open>
  What \<^verbatim>\<open>change_pin\<close> demands of a new PIN: \<^verbatim>\<open>new.isdigit()\<close> and \<^verbatim>\<open>len(new) >= 4\<close>.
\<close>

definition strong_pin :: "(nat \<Rightarrow> bool) \<Rightarrow> pystr \<Rightarrow> bool" where
  "strong_pin digit p = (isdigit digit p \<and> 4 \<le> length p)"

text \<open>
  Two rows of the table of digits, for the examples: the ASCII digits \<^verbatim>\<open>0\<close> to \<^verbatim>\<open>9\<close>
  (code points 48 to 57) and the Arabic-Indic digits (code points 1632 to 1641).
\<close>

definition two_rows_of_digits :: "nat \<Rightarrow> bool" where
  "two_rows_of_digits c = (48 \<le> c \<and> c \<le> 57 \<or> 1632 \<le> c \<and> c \<le> 1641)"

section \<open>Facts about floats\<close>

lemma pos_not_le_zero: "(0::pyfloat) < x \<Longrightarrow> \<not> x \<le> 0"
  by (cases x) (simp_all add: zero_pyfloat_def)

lemma le_not_less: "(x::pyfloat) \<le> y \<Longrightarrow> \<not> y < x"
  by (cases x; cases y) simp_all

lemma round_half_even_nonneg: "0 \<le> s \<Longrightarrow> 0 \<le> round_half_even s"
  by (simp add: round_half_even_def Let_def)

text \<open>Rounding keeps the sign: a value that is not negative rounds to one that is not.\<close>

lemma rnd_nonneg: "0 \<le> q \<Longrightarrow> \<exists>r. (rnd q = Fin r \<and> 0 \<le> r) \<or> rnd q = PInf"
proof (cases "q = 0")
  case True
  then show ?thesis by (simp add: rnd_def)
next
  case False
  assume q: "0 \<le> q"
  define e where "e = max (ilog2 \<bar>q\<bar> - 52) (- 1074)"
  define n where "n = round_half_even (q / 2 powi e)"
  have p: "(0::rat) < 2 powi e" by (simp add: zero_less_power_int)
  have "0 \<le> q / 2 powi e" using q p by simp
  then have n: "0 \<le> n" unfolding n_def by (rule round_half_even_nonneg)
  have r: "(0::rat) \<le> of_int n * 2 powi e" using n p by simp
  have "(0::rat) < 2 ^ 1024" by simp
  with r have "\<not> of_int n * 2 powi e \<le> - ((2::rat) ^ 1024)"
    by linarith
  with r False show ?thesis
    by (simp add: rnd_def Let_def e_def[symmetric] n_def[symmetric])
qed

lemma sub_ge_zero:
  "\<not> Fin y \<le> 0 \<Longrightarrow> \<not> b < Fin y \<Longrightarrow> 0 \<le> b \<Longrightarrow> (0::pyfloat) \<le> b - Fin y"
proof (cases b)
  case (Fin x)
  assume "\<not> b < Fin y"
  with Fin have "0 \<le> x - y" by simp
  from rnd_nonneg[OF this] Fin show ?thesis by (auto simp: zero_pyfloat_def)
qed (simp_all add: zero_pyfloat_def)

lemma add_ge_zero:
  "\<not> Fin y \<le> 0 \<Longrightarrow> 0 \<le> b \<Longrightarrow> (0::pyfloat) \<le> b + Fin y"
proof (cases b)
  case (Fin x)
  assume "\<not> Fin y \<le> 0" "0 \<le> b"
  with Fin have "0 \<le> x + y" by (simp add: zero_pyfloat_def)
  from rnd_nonneg[OF this] Fin show ?thesis by (auto simp: zero_pyfloat_def)
qed (simp_all add: zero_pyfloat_def)

text \<open>
  Taking \<open>y\<close> from a float \<open>x\<close> and adding it back gives \<open>x\<close> again when the
  difference is exact, that is, is a float itself.
\<close>

lemma sub_add_exact:
  "rnd x = Fin x \<Longrightarrow> rnd (x - y) = Fin (x - y) \<Longrightarrow> (Fin x - Fin y) + Fin y = Fin x"
  by simp

text \<open>Evaluating \<open>rnd\<close> step by step.\<close>

lemma rnd_eval:
  assumes "q \<noteq> 0" and "ilog2 \<bar>q\<bar> = k" and "e = max (k - 52) (- 1074)"
    and "round_half_even (q / 2 powi e) = n" and "r = of_int n * 2 powi e"
    and "\<bar>r\<bar> < 2 ^ 1024"
  shows "rnd q = Fin r"
proof -
  from assms(6) have "\<not> 2 ^ 1024 \<le> r" "\<not> r \<le> - (2 ^ 1024)" by linarith+
  with assms(1-5) show ?thesis by (simp add: rnd_def Let_def)
qed

lemma round_half_even_of_int: "round_half_even (of_int m) = m"
  by (simp add: round_half_even_def)

text \<open>An integer below \<open>2 ^ 53\<close> is a float: rounding leaves it as it is.\<close>

lemma rnd_of_int:
  assumes "0 < m" and "m < 2 ^ 53"
  shows "rnd (of_int m) = Fin (of_int m)"
proof -
  define j where "j = nat (53 - bitlen m)"
  have b1: "0 < bitlen m" using assms(1) bitlen_nonneg [of m] bitlen_eq_zero_iff [of m] by linarith
  have b2: "bitlen m \<le> 53" using assms by (simp add: bitlen_le_iff_power)
  have il: "ilog2 \<bar>of_int m\<bar> = bitlen m - 1"
    using assms(1) by (simp add: ilog2_def)
  have e: "bitlen m - 53 = max (bitlen m - 1 - 52) (- 1074)" using b1 by simp
  have pw: "(2::rat) powi (bitlen m - 53) = 1 / 2 ^ j"
    using b2 by (simp add: power_int_def j_def field_simps)
  have sc: "of_int m / (2::rat) powi (bitlen m - 53) = of_int (m * 2 ^ j)"
    by (simp add: pw)
  have rh: "round_half_even (of_int m / 2 powi (bitlen m - 53)) = m * 2 ^ j"
    unfolding sc by (rule round_half_even_of_int)
  have r: "(of_int m :: rat) = of_int (m * 2 ^ j) * 2 powi (bitlen m - 53)"
    by (simp add: pw)
  have "(of_int m :: rat) < of_int (2 ^ 53)" using assms(2) by (simp only: of_int_less_iff)
  also have "\<dots> < (2::rat) ^ 1024" by simp
  finally have bd: "\<bar>of_int m :: rat\<bar> < 2 ^ 1024" using assms(1) by simp
  from assms(1) have nz: "(of_int m :: rat) \<noteq> 0" by simp
  show ?thesis by (rule rnd_eval [OF nz il e rh r bd])
qed

text \<open>
  \<open>2 ^ 53 + 1\<close> is not a float: it lies half way between the floats \<open>2 ^ 53\<close> and
  \<open>2 ^ 53 + 2\<close>, and rounds to the one with the even significand.
\<close>

lemma bitlen_tie: "bitlen 9007199254740993 = 54"
  by (simp add: bitlen_def compute_floorlog)

lemma rnd_tie: "rnd 9007199254740993 = Fin 9007199254740992"
proof (rule rnd_eval [where k = 53 and e = 1 and n = 4503599627370496])
  show "ilog2 \<bar>9007199254740993\<bar> = 53" by (simp add: ilog2_def bitlen_tie)
  have fl: "\<lfloor>(9007199254740993::rat) / 2\<rfloor> = 4503599627370496"
    by (simp add: floor_eq_iff)
  show "round_half_even (9007199254740993 / 2 powi 1) = 4503599627370496"
    by (simp add: round_half_even_def Let_def fl)
qed simp_all


section \<open>Facts about strings and JSON documents\<close>

lemma py_eq_iff [simp]: "py a = py b \<longleftrightarrow> a = b"
proof -
  have "inj (of_char :: char \<Rightarrow> nat)" by (rule injI) simp
  then show ?thesis unfolding py_def by (simp add: inj_map_eq_map)
qed

lemma length_py [simp]: "length (py s) = length s"
  by (simp add: py_def)





section \<open>Facts about the helpers and the example states\<close>

lemma add_transaction_Some:
  "accounts w k = Some a \<Longrightarrow>
   add_transaction w k ty amt rm now =
     Some (w\<lparr>accounts := (accounts w)(k \<mapsto> a\<lparr>transactions := transactions a @
       [\<lparr>tx_time = now, tx_type = ty, tx_amount = amt, tx_remark = rm,
         tx_balance = balance a\<rparr>]\<rparr>)\<rparr>)"
  by (simp add: add_transaction_def)

lemma create_account_fresh:
  "accounts w k = None \<Longrightarrow>
   create_account w k nm p ib now =
     (\<lparr>accounts = (accounts w)(k \<mapsto> \<lparr>name = nm, pin = p,
          balance = (case ib of None \<Rightarrow> 0 | Some x \<Rightarrow> x),
          transactions = [\<lparr>tx_time = now, tx_type = py ''Account Created'', tx_amount = 0,
             tx_remark = py ''Initial account setup'',
             tx_balance = (case ib of None \<Rightarrow> 0 | Some x \<Rightarrow> x)\<rparr>]\<rparr>),
       snapshot = Some (Document (json_dump ((accounts w)(k \<mapsto> \<lparr>name = nm, pin = p,
          balance = (case ib of None \<Rightarrow> 0 | Some x \<Rightarrow> x),
          transactions = [\<lparr>tx_time = now, tx_type = py ''Account Created'', tx_amount = 0,
             tx_remark = py ''Initial account setup'',
             tx_balance = (case ib of None \<Rightarrow> 0 | Some x \<Rightarrow> x)\<rparr>]\<rparr>)))),
       \<dots> = world.more w\<rparr>, Done)"
  by (simp add: create_account_def add_transaction_def save_accounts_def domIff Let_def)

lemma demo_alice:
  "accounts demo_world
      (py ''1001'') = Some \<lparr>name = py ''Alice'', pin = py ''1234'', balance = Fin 5000,
     transactions = [\<lparr>tx_time = py ''2024-01-01 09:00:00'', tx_type = py ''Account Created'',
       tx_amount = 0, tx_remark = py ''Initial account setup'', tx_balance = Fin 5000\<rparr>]\<rparr>"
  by (simp add: demo_world_def empty_world_def create_account_fresh)

lemma demo_bob:
  "accounts demo_world
      (py ''1002'') = Some \<lparr>name = py ''Bob'', pin = py ''2345'', balance = Fin 3000,
     transactions = [\<lparr>tx_time = py ''2024-01-01 09:00:01'', tx_type = py ''Account Created'',
       tx_amount = 0, tx_remark = py ''Initial account setup'', tx_balance = Fin 3000\<rparr>]\<rparr>"
  by (simp add: demo_world_def empty_world_def create_account_fresh)

lemma overdrawn_carol:
  "accounts overdrawn_world (py ''3001'') = Some \<lparr>name = py ''Carol'', pin = py ''9999'',
     balance = Fin (- 5),
     transactions = [\<lparr>tx_time = py ''2024-01-01 09:00:00'', tx_type = py ''Account Created'',
       tx_amount = 0, tx_remark = py ''Initial account setup'', tx_balance = Fin (- 5)\<rparr>]\<rparr>"
  by (simp add: overdrawn_world_def empty_world_def create_account_fresh)

lemma rich_dave:
  "accounts rich_world (py ''4001'') = Some \<lparr>name = py ''Dave'', pin = py ''4444'',
     balance = Fin 9007199254740994,
     transactions = [\<lparr>tx_time = py ''2024-01-01 09:00:00'', tx_type = py ''Account Created'',
       tx_amount = 0, tx_remark = py ''Initial account setup'',
       tx_balance = Fin 9007199254740994\<rparr>]\<rparr>"
  by (simp add: rich_world_def empty_world_def create_account_fresh)

lemma demo_accounts:
  "accounts demo_world k = Some acct \<Longrightarrow> balance acct = Fin 5000 \<or> balance acct = Fin 3000"
  by (auto simp: demo_world_def empty_world_def create_account_fresh split: if_splits)

lemma demo_all_balances_ge_zero: "all_balances_ge_zero demo_world"
  by (auto simp: all_balances_ge_zero_def zero_pyfloat_def dest!: demo_accounts)

section \<open>Deposit\<close>

text \<open>
  Claim C3. For every account and every deposit amount \<open>d > 0\<close>, \<^verbatim>\<open>deposit\<close> sets the
  balance to the old balance plus \<open>d\<close> and appends exactly one entry to the ledger, of type
  \<^verbatim>\<open>Deposit\<close>, with amount \<open>d\<close> and recorded balance equal to the new balance. For an
  amount that \<^verbatim>\<open>float\<close> cannot parse, or one that is \<open>\<le> 0\<close>, it fails with
  \<open>InvalidAmount\<close> and nothing changes: the dictionary and the file are as before.
\<close>

theorem deposit_correct:
  "accounts w acct_no = Some acct \<Longrightarrow>
     (0 < d \<longrightarrow>
        (\<exists>w' acct' e. deposit w acct_no (Some d) now = (w', Done)
           \<and> accounts w' acct_no = Some acct'
           \<and> balance acct' = balance acct + d
           \<and> transactions acct' = transactions acct @ [e]
           \<and> tx_type e = py ''Deposit'' \<and> tx_amount e = d \<and> tx_balance e = balance acct'))
     \<and> (d \<le> 0 \<longrightarrow> deposit w acct_no (Some d) now = (w, Failed InvalidAmount))
     \<and> deposit w acct_no None now = (w, Failed InvalidAmount)"
  by (auto simp: deposit_def add_transaction_Some save_accounts_def dest: pos_not_le_zero)

theorem deposit_correct_witness:
  "(0::pyfloat) < Fin 200
   \<and> snd (deposit demo_world (py ''1001'') (Some (Fin 200))
       (py ''2024-01-01 10:00:00'')) = Done
   \<and> map_option balance
        (accounts (fst (deposit demo_world (py ''1001'') (Some (Fin 200))
            (py ''2024-01-01 10:00:00'')))
           (py ''1001'')) = Some (Fin 5200)
   \<and> map_option (length \<circ> transactions)
        (accounts (fst (deposit demo_world (py ''1001'') (Some (Fin 200))
            (py ''2024-01-01 10:00:00'')))
           (py ''1001'')) = Some 2
   \<and> Fin (- 3) \<le> (0::pyfloat)
   \<and> deposit demo_world (py ''1001'') (Some (Fin (- 3))) (py ''2024-01-01 10:00:00'')
       = (demo_world, Failed InvalidAmount)"
  using deposit_correct [OF demo_alice, of "Fin 200" "py ''2024-01-01 10:00:00''"]
    deposit_correct [OF demo_alice, of "Fin (- 3)" "py ''2024-01-01 10:00:00''"]
  by (auto simp: zero_pyfloat_def rnd_of_int [of 5200, simplified])

section \<open>Withdraw\<close>

text \<open>
  Claim C1, as the code has it. For every account and every amount \<open>amt\<close> with
  \<open>0 < amt \<le> balance\<close>, \<^verbatim>\<open>withdraw\<close> sets the balance to the old balance minus \<open>amt\<close> and
  appends exactly one entry, of type \<^verbatim>\<open>Withdrawal\<close>, with amount \<open>amt\<close> and recorded
  balance equal to the new balance. For every \<open>amt\<close> above the balance that is positive,
  it fails with \<open>InsufficientFunds\<close>; for every \<open>amt \<le> 0\<close>, above the balance or not, it
  fails with \<open>InvalidAmount\<close>, since the sign is tested first. In both failures the
  dictionary and the file are as before.
\<close>

theorem withdraw_correct:
  "accounts w acct_no = Some acct \<Longrightarrow>
     (0 < amt \<and> amt \<le> balance acct \<longrightarrow>
        (\<exists>w' acct' e. withdraw w acct_no (Some amt) now = (w', Done)
           \<and> accounts w' acct_no = Some acct'
           \<and> balance acct' = balance acct - amt
           \<and> transactions acct' = transactions acct @ [e]
           \<and> tx_type e = py ''Withdrawal'' \<and> tx_amount e = amt \<and> tx_balance e = balance acct'))
     \<and> (balance acct < amt \<and> 0 < amt \<longrightarrow>
          withdraw w acct_no (Some amt) now = (w, Failed InsufficientFunds))
     \<and> (amt \<le> 0 \<longrightarrow> withdraw w acct_no (Some amt) now = (w, Failed InvalidAmount))"
  by (auto simp: withdraw_def add_transaction_Some save_accounts_def
      dest: pos_not_le_zero le_not_less)

theorem withdraw_correct_witness:
  "(0::pyfloat) < Fin 200 \<and> Fin 200 \<le> Fin 5000
   \<and> snd (withdraw demo_world (py ''1001'') (Some (Fin 200))
       (py ''2024-01-01 10:00:00'')) = Done
   \<and> map_option balance
        (accounts (fst (withdraw demo_world (py ''1001'') (Some (Fin 200))
            (py ''2024-01-01 10:00:00'')))
           (py ''1001'')) = Some (Fin 4800)
   \<and> Fin 5000 < Fin 6000 \<and> (0::pyfloat) < Fin 6000
   \<and> withdraw demo_world (py ''1001'') (Some (Fin 6000)) (py ''2024-01-01 10:00:00'')
       = (demo_world, Failed InsufficientFunds)
   \<and> Fin (- 3) \<le> (0::pyfloat)
   \<and> withdraw demo_world (py ''1001'') (Some (Fin (- 3))) (py ''2024-01-01 10:00:00'')
       = (demo_world, Failed InvalidAmount)"
  using withdraw_correct [OF demo_alice, of "Fin 200" "py ''2024-01-01 10:00:00''"]
    withdraw_correct [OF demo_alice, of "Fin 6000" "py ''2024-01-01 10:00:00''"]
    withdraw_correct [OF demo_alice, of "Fin (- 3)" "py ''2024-01-01 10:00:00''"]
  by (auto simp: zero_pyfloat_def rnd_of_int [of 4800, simplified])

text \<open>
  Claim C1 as stated fails for an account whose balance is negative, which
  \<^verbatim>\<open>create_account\<close> allows: the account opened with \<^verbatim>\<open>-5\<close> has balance \<^verbatim>\<open>-5.0\<close>, the
  amount \<^verbatim>\<open>-1\<close> is above that balance, and \<^verbatim>\<open>withdraw\<close> answers \<^verbatim>\<open>Amount must be positive.\<close>,
  not \<^verbatim>\<open>Insufficient funds.\<close>
\<close>

theorem withdraw_negative_balance_counterexample:
  "map_option balance (accounts overdrawn_world (py ''3001'')) = Some (Fin (- 5))
   \<and> Fin (- 5) < Fin (- 1)
   \<and> withdraw overdrawn_world (py ''3001'') (Some (Fin (- 1))) (py ''2024-01-01 10:00:00'')
       = (overdrawn_world, Failed InvalidAmount)
   \<and> snd (withdraw overdrawn_world (py ''3001'') (Some (Fin (- 1)))
       (py ''2024-01-01 10:00:00''))
       \<noteq> Failed InsufficientFunds"
  by (simp add: overdrawn_carol withdraw_def zero_pyfloat_def)

section \<open>Transfer\<close>

text \<open>
  Claim C2. For two accounts of the dictionary, the source \<open>acct_no\<close> and a different
  destination \<open>to_acct\<close>, and every amount \<open>t\<close> with \<open>0 < t \<le>\<close> the source's balance,
  \<^verbatim>\<open>transfer\<close> takes \<open>t\<close> from the source's balance, adds \<open>t\<close> to the destination's,
  appends exactly one \<^verbatim>\<open>Transfer Out\<close> entry to the source's ledger and exactly one
  \<^verbatim>\<open>Transfer In\<close> entry to the destination's, both with amount \<open>t\<close>, and each entry
  records the balance its account has after both balances have been written. (The
  transfer of an account to itself is claim C10.)
\<close>

theorem transfer_correct:
  "accounts w acct_no = Some src \<Longrightarrow> accounts w to_acct = Some dst \<Longrightarrow>
   acct_no \<noteq> to_acct \<Longrightarrow> 0 < t \<Longrightarrow> t \<le> balance src \<Longrightarrow>
     \<exists>w' src' dst' e1 e2. transfer w acct_no to_acct (Some t) now1 now2 = (w', Done)
        \<and> accounts w' acct_no = Some src' \<and> accounts w' to_acct = Some dst'
        \<and> balance src' = balance src - t \<and> balance dst' = balance dst + t
        \<and> transactions src' = transactions src @ [e1]
        \<and> tx_type e1 = py ''Transfer Out'' \<and> tx_amount e1 = t \<and> tx_balance e1 = balance src'
        \<and> transactions dst' = transactions dst @ [e2]
        \<and> tx_type e2 = py ''Transfer In'' \<and> tx_amount e2 = t \<and> tx_balance e2 = balance dst'"
  by (auto simp: transfer_def add_transaction_Some save_accounts_def domIff
      dest: pos_not_le_zero le_not_less)

theorem transfer_correct_witness:
  "py ''1001'' \<noteq> (py ''1002'') \<and> (0::pyfloat) < Fin 100 \<and> Fin 100 \<le> Fin 5000
   \<and> snd (transfer demo_world (py ''1001'') (py ''1002'') (Some (Fin 100))
             (py ''2024-01-01 10:00:00'') (py ''2024-01-01 10:00:01'')) = Done
   \<and> map_option balance
        (accounts (fst (transfer demo_world (py ''1001'') (py ''1002'') (Some (Fin 100))
             (py ''2024-01-01 10:00:00'') (py ''2024-01-01 10:00:01'')))
                 (py ''1001'')) = Some (Fin 4900)
   \<and> map_option balance
        (accounts (fst (transfer demo_world (py ''1001'') (py ''1002'') (Some (Fin 100))
             (py ''2024-01-01 10:00:00'') (py ''2024-01-01 10:00:01'')))
                 (py ''1002'')) = Some (Fin 3100)"
  using transfer_correct [OF demo_alice demo_bob, of "Fin 100" "py ''2024-01-01 10:00:00''"
      "py ''2024-01-01 10:00:01''"]
  by (auto simp: zero_pyfloat_def rnd_of_int [of 4900, simplified]
      rnd_of_int [of 3100, simplified])

text \<open>
  Claim C10, as the code has it. A transfer whose destination is the source itself is
  accepted for every amount \<open>t\<close> with \<open>0 < t \<le> balance\<close>. The balance afterwards is
  \<open>(balance - t) + t\<close> in float arithmetic, the old balance whenever the difference
  \<open>balance - t\<close> is exact; the account's own ledger grows by two entries, \<^verbatim>\<open>Transfer Out\<close> then
  \<^verbatim>\<open>Transfer In\<close>, both with amount \<open>t\<close> and both recording that final balance.
\<close>

theorem self_transfer:
  "accounts w acct_no = Some acct \<Longrightarrow> 0 < t \<Longrightarrow> t \<le> balance acct \<Longrightarrow>
     \<exists>w' acct' e1 e2. transfer w acct_no acct_no (Some t) now1 now2 = (w', Done)
        \<and> accounts w' acct_no = Some acct'
        \<and> balance acct' = (balance acct - t) + t
        \<and> transactions acct' = transactions acct @ [e1, e2]
        \<and> tx_type e1 = py ''Transfer Out'' \<and> tx_amount e1 = t \<and> tx_balance e1 = balance acct'
        \<and> tx_type e2 = py ''Transfer In'' \<and> tx_amount e2 = t \<and> tx_balance e2 = balance acct'"
  by (auto simp: transfer_def add_transaction_Some save_accounts_def domIff
      dest: pos_not_le_zero le_not_less)

theorem self_transfer_witness:
  "(0::pyfloat) < Fin 100 \<and> Fin 100 \<le> Fin 5000
   \<and> snd (transfer demo_world (py ''1001'') (py ''1001'') (Some (Fin 100))
             (py ''2024-01-01 10:00:00'') (py ''2024-01-01 10:00:01'')) = Done
   \<and> map_option balance
        (accounts (fst (transfer demo_world (py ''1001'') (py ''1001'') (Some (Fin 100))
             (py ''2024-01-01 10:00:00'') (py ''2024-01-01 10:00:01'')))
                 (py ''1001'')) = Some (Fin 5000)
   \<and> map_option (map tx_type \<circ> transactions)
        (accounts (fst (transfer demo_world (py ''1001'') (py ''1001'') (Some (Fin 100))
             (py ''2024-01-01 10:00:00'') (py ''2024-01-01 10:00:01''))) (py ''1001''))
       = Some [py ''Account Created'', py ''Transfer Out'', py ''Transfer In'']"
  using self_transfer [OF demo_alice, of "Fin 100" "py ''2024-01-01 10:00:00''"
      "py ''2024-01-01 10:00:01''"]
  by (auto simp: zero_pyfloat_def rnd_of_int [of 4900, simplified]
      rnd_of_int [of 5000, simplified])

text \<open>
  Claim C10 as stated, with the balance unchanged, fails where the subtraction rounds.
  The account opened with \<^verbatim>\<open>9007199254740994\<close> (\<open>2 ^ 53 + 2\<close>) transfers \<^verbatim>\<open>1\<close> to itself:
  \<open>2 ^ 53 + 1\<close> is not a float and rounds to \<open>2 ^ 53\<close>, adding \<^verbatim>\<open>1\<close> rounds to \<open>2 ^ 53\<close>
  again, and the balance ends at \<^verbatim>\<open>9007199254740992.0\<close>.
\<close>

theorem self_transfer_counterexample:
  "map_option balance (accounts rich_world (py ''4001'')) = Some (Fin 9007199254740994)
   \<and> (0::pyfloat) < Fin 1 \<and> Fin 1 \<le> Fin 9007199254740994
   \<and> snd (transfer rich_world (py ''4001'') (py ''4001'') (Some (Fin 1))
             (py ''2024-01-01 10:00:00'') (py ''2024-01-01 10:00:01'')) = Done
   \<and> map_option balance
        (accounts (fst (transfer rich_world (py ''4001'') (py ''4001'') (Some (Fin 1))
             (py ''2024-01-01 10:00:00'') (py ''2024-01-01 10:00:01''))) (py ''4001''))
       = Some (Fin 9007199254740992)"
  by (simp add: rich_dave transfer_def add_transaction_Some save_accounts_def domIff
      zero_pyfloat_def rnd_tie)

section \<open>No negative balance\<close>

text \<open>
  Claim C4 says that in a dictionary where every balance is non-negative, every balance
  is still non-negative after one \<^verbatim>\<open>withdraw\<close> or one \<^verbatim>\<open>transfer\<close>. The two tests of
  \<^verbatim>\<open>withdraw\<close>, \<^verbatim>\<open>amt <= 0\<close> with the message \<^verbatim>\<open>Amount must be positive.\<close> and
  \<^verbatim>\<open>amt > balance\<close> with \<^verbatim>\<open>Insufficient funds.\<close>, are both false of \<^verbatim>\<open>float("nan")\<close>. With
  the demo accounts, balances \<^verbatim>\<open>5000.0\<close> and \<^verbatim>\<open>3000.0\<close>, typing \<^verbatim>\<open>nan\<close> as the amount makes
  the withdrawal succeed and leaves the balance not-a-number, which is not \<open>\<ge> 0\<close>; after
  that no amount is too large, and a withdrawal of \<^verbatim>\<open>1000000\<close> succeeds as well.
\<close>

theorem withdraw_nan_balance:
  "map_option balance (accounts demo_world (py ''1001'')) = Some (Fin 5000)
   \<and> map_option balance (accounts demo_world (py ''1002'')) = Some (Fin 3000)
   \<and> (0::pyfloat) \<le> Fin 5000 \<and> (0::pyfloat) \<le> Fin 3000
   \<and> snd (withdraw demo_world (py ''1001'') (Some NaN) (py ''2024-01-01 10:00:00'')) = Done
   \<and> map_option balance
        (accounts
           (fst (withdraw demo_world (py ''1001'') (Some NaN) (py ''2024-01-01 10:00:00'')))
           (py ''1001'')) = Some NaN
   \<and> \<not> (0::pyfloat) \<le> NaN
   \<and> snd (withdraw
             (fst (withdraw demo_world (py ''1001'') (Some NaN) (py ''2024-01-01 10:00:00'')))
             (py ''1001'') (Some (Fin 1000000)) (py ''2024-01-01 10:00:01'')) = Done"
  by (simp add: withdraw_def demo_alice demo_bob add_transaction_Some save_accounts_def
      zero_pyfloat_def)

text \<open>The same with the invariant written out: it holds before and fails after.\<close>

lemma withdraw_nan_breaks_invariant:
  "all_balances_ge_zero demo_world
   \<and> \<not> all_balances_ge_zero
         (fst (withdraw demo_world (py ''1001'') (Some NaN) (py ''2024-01-01 10:00:00'')))"
proof -
  let ?w' = "fst (withdraw demo_world (py ''1001'') (Some NaN) (py ''2024-01-01 10:00:00''))"
  have "\<exists>a. accounts ?w' (py ''1001'') = Some a \<and> balance a = NaN"
    by (simp add: withdraw_def demo_alice add_transaction_Some save_accounts_def
        zero_pyfloat_def)
  then obtain a where a: "accounts ?w' (py ''1001'') = Some a" "balance a = NaN"
    by blast
  from a(2) have "\<not> (0::pyfloat) \<le> balance a" by (simp add: zero_pyfloat_def)
  with a(1) have "\<not> all_balances_ge_zero ?w'"
    unfolding all_balances_ge_zero_def by blast
  with demo_all_balances_ge_zero show ?thesis by simp
qed

text \<open>
  What the two tests do achieve: a \<^verbatim>\<open>withdraw\<close> or a \<^verbatim>\<open>transfer\<close> keeps every balance
  non-negative when the amount is a number, that is, when the text does not parse or
  parses to a finite float.
\<close>

lemma all_balances_ge_zero_preserved:
  assumes inv: "all_balances_ge_zero w" and num: "inp = None \<or> (\<exists>y. inp = Some (Fin y))"
  shows "all_balances_ge_zero (fst (withdraw w acct_no inp now))"
    and "all_balances_ge_zero (fst (transfer w acct_no to_acct inp now1 now2))"
proof -
  show "all_balances_ge_zero (fst (withdraw w acct_no inp now))"
  proof (cases "snd (withdraw w acct_no inp now) = Done")
    case False
    then have "fst (withdraw w acct_no inp now) = w"
      by (auto simp: withdraw_def add_transaction_Some split: option.splits if_splits)
    with inv show ?thesis by simp
  next
    case True
    with num obtain y acct where a: "inp = Some (Fin y)" "\<not> Fin y \<le> 0"
      "accounts w acct_no = Some acct" "\<not> balance acct < Fin y"
      by (auto simp: withdraw_def split: option.splits if_splits)
    from inv a have "0 \<le> balance acct" by (simp add: all_balances_ge_zero_def)
    with a have "0 \<le> balance acct - Fin y" by (simp add: sub_ge_zero)
    with inv a show ?thesis
      by (auto simp: withdraw_def add_transaction_Some save_accounts_def
          all_balances_ge_zero_def)
  qed
  show "all_balances_ge_zero (fst (transfer w acct_no to_acct inp now1 now2))"
  proof (cases "snd (transfer w acct_no to_acct inp now1 now2) = Done")
    case False
    then have "fst (transfer w acct_no to_acct inp now1 now2) = w"
      by (auto simp: transfer_def add_transaction_Some domIff Let_def
          split: option.splits if_splits)
    with inv show ?thesis by simp
  next
    case True
    with num obtain y src dst where a: "inp = Some (Fin y)" "\<not> Fin y \<le> 0"
      "accounts w acct_no = Some src" "\<not> balance src < Fin y" "accounts w to_acct = Some dst"
      by (auto simp: transfer_def domIff split: option.splits if_splits)
    from inv a have n: "0 \<le> balance src" "0 \<le> balance dst"
      by (simp_all add: all_balances_ge_zero_def)
    with a have s: "0 \<le> balance src - Fin y" by (simp add: sub_ge_zero)
    from a n have d: "0 \<le> balance dst + Fin y" by (simp add: add_ge_zero)
    from a s have sd: "0 \<le> (balance src - Fin y) + Fin y" by (simp add: add_ge_zero)
    show ?thesis
    proof (cases "acct_no = to_acct")
      case True
      with inv a sd show ?thesis
        by (auto simp: transfer_def add_transaction_Some save_accounts_def domIff
            all_balances_ge_zero_def)
    next
      case False
      with inv a s d show ?thesis
        by (auto simp: transfer_def add_transaction_Some save_accounts_def domIff
            all_balances_ge_zero_def)
    qed
  qed
qed

section \<open>Change of PIN\<close>

text \<open>
  Claim C6. For every account, \<^verbatim>\<open>change_pin\<close> replaces the stored PIN by the new one
  exactly when the PIN typed as current equals the stored one, the new PIN equals its
  confirmation, and the new PIN is all digits and at least 4 characters long; it then
  appends exactly one \<^verbatim>\<open>PIN Change\<close> entry with amount 0. Otherwise nothing changes, and
  the failure is \<open>WrongPin\<close> when the current PIN is wrong, else \<open>Mismatch\<close> when the
  confirmation differs, else \<open>WeakPin\<close>. All digits is \<^verbatim>\<open>str.isdigit\<close>, for whatever
  table of digits the interpreter has, and the length is counted in characters.
\<close>

theorem change_pin_correct:
  "accounts w acct_no = Some acct \<Longrightarrow>
     (old = pin acct \<and> new = confirm \<and> strong_pin digit new \<longrightarrow>
        (\<exists>w' acct' e. change_pin digit w acct_no old new confirm now = (w', Done)
           \<and> accounts w' acct_no = Some acct'
           \<and> pin acct' = new
           \<and> transactions acct' = transactions acct @ [e]
           \<and> tx_type e = py ''PIN Change'' \<and> tx_amount e = 0))
     \<and> (old \<noteq> pin acct \<longrightarrow>
          change_pin digit w acct_no old new confirm now = (w, Failed WrongPin))
     \<and> (old = pin acct \<and> new \<noteq> confirm \<longrightarrow>
          change_pin digit w acct_no old new confirm now = (w, Failed Mismatch))
     \<and> (old = pin acct \<and> new = confirm \<and> \<not> strong_pin digit new \<longrightarrow>
          change_pin digit w acct_no old new confirm now = (w, Failed WeakPin))"
  by (auto simp: change_pin_def strong_pin_def add_transaction_Some save_accounts_def)

theorem change_pin_correct_witness:
  "strong_pin two_rows_of_digits (py ''4321'')
   \<and> snd (change_pin two_rows_of_digits demo_world (py ''1001'') (py ''1234'') (py ''4321'')
        (py ''4321'') (py ''2024-01-01 10:00:00'')) = Done
   \<and> map_option pin
        (accounts (fst (change_pin two_rows_of_digits demo_world (py ''1001'') (py ''1234'')
           (py ''4321'') (py ''4321'') (py ''2024-01-01 10:00:00''))) (py ''1001''))
       = Some (py ''4321'')
   \<and> strong_pin two_rows_of_digits [1633, 1634, 1635, 1636]
   \<and> snd (change_pin two_rows_of_digits demo_world (py ''1001'') (py ''1234'')
        [1633, 1634, 1635, 1636] [1633, 1634, 1635, 1636] (py ''2024-01-01 10:00:00'')) = Done
   \<and> py ''0000'' \<noteq> py ''1234''
   \<and> change_pin two_rows_of_digits demo_world (py ''1001'') (py ''0000'') (py ''4321'')
        (py ''4321'') (py ''2024-01-01 10:00:00'') = (demo_world, Failed WrongPin)
   \<and> py ''4321'' \<noteq> py ''4322''
   \<and> change_pin two_rows_of_digits demo_world (py ''1001'') (py ''1234'') (py ''4321'')
        (py ''4322'') (py ''2024-01-01 10:00:00'') = (demo_world, Failed Mismatch)
   \<and> \<not> strong_pin two_rows_of_digits (py ''12a'')
   \<and> change_pin two_rows_of_digits demo_world (py ''1001'') (py ''1234'') (py ''12a'')
        (py ''12a'') (py ''2024-01-01 10:00:00'') = (demo_world, Failed WeakPin)"
proof -
  have strong: "strong_pin two_rows_of_digits (py ''4321'')"
    "strong_pin two_rows_of_digits [1633, 1634, 1635, 1636]"
    and weak: "\<not> strong_pin two_rows_of_digits (py ''12a'')"
    by (simp_all add: strong_pin_def isdigit_def two_rows_of_digits_def py_def)
  have pins: "pin \<lparr>name = py ''Alice'', pin = py ''1234'', balance = Fin 5000,
      transactions = ts\<rparr> = py ''1234''" for ts
    by simp
  show ?thesis
    using strong weak
      change_pin_correct [OF demo_alice, where old = "py ''1234''" and new = "py ''4321''"
        and confirm = "py ''4321''" and digit = two_rows_of_digits
        and now = "py ''2024-01-01 10:00:00''"]
      change_pin_correct [OF demo_alice, where old = "py ''1234''"
        and new = "[1633, 1634, 1635, 1636]" and confirm = "[1633, 1634, 1635, 1636]"
        and digit = two_rows_of_digits and now = "py ''2024-01-01 10:00:00''"]
      change_pin_correct [OF demo_alice, where old = "py ''0000''" and new = "py ''4321''"
        and confirm = "py ''4321''" and digit = two_rows_of_digits
        and now = "py ''2024-01-01 10:00:00''"]
      change_pin_correct [OF demo_alice, where old = "py ''1234''" and new = "py ''4321''"
        and confirm = "py ''4322''" and digit = two_rows_of_digits
        and now = "py ''2024-01-01 10:00:00''"]
      change_pin_correct [OF demo_alice, where old = "py ''1234''" and new = "py ''12a''"
        and confirm = "py ''12a''" and digit = two_rows_of_digits
        and now = "py ''2024-01-01 10:00:00''"]
    by auto
qed

text \<open>
  Claim C5 says that every PIN in the dictionary is all digits and at least 4 characters
  long at every reachable point. \<^verbatim>\<open>create_account\<close> does not check the PIN that
  \<^verbatim>\<open>change_pin\<close> checks and that the prompt of \<^verbatim>\<open>main\<close>, \<^verbatim>\<open>Set PIN (min 4 digits):\<close>, asks
  for: from the empty dictionary, creating an account with the PIN \<^verbatim>\<open>12\<close> succeeds and
  stores it.
\<close>

theorem create_account_weak_pin:
  "snd (create_account empty_world (py ''2001'') (py ''Eve'') (py ''12'') None
      (py ''2024-01-01 09:00:00'')) = Done
   \<and> map_option pin
        (accounts (fst (create_account empty_world (py ''2001'') (py ''Eve'') (py ''12'') None
           (py ''2024-01-01 09:00:00''))) (py ''2001'')) = Some (py ''12'')
   \<and> \<not> strong_pin digit (py ''12'')"
  by (simp add: empty_world_def create_account_fresh strong_pin_def)

text \<open>A PIN that \<^verbatim>\<open>change_pin\<close> has stored is all digits and at least 4 characters long.\<close>

lemma change_pin_strong:
  "change_pin digit w acct_no old new confirm now = (w', Done) \<Longrightarrow>
     \<exists>acct'. accounts w' acct_no = Some acct' \<and> pin acct' = new \<and> strong_pin digit new"
  by (auto simp: change_pin_def strong_pin_def add_transaction_Some save_accounts_def
      split: option.splits if_splits)

section \<open>Failures change nothing\<close>

text \<open>
  Claim C7. Whenever \<^verbatim>\<open>create_account\<close>, \<^verbatim>\<open>deposit\<close>, \<^verbatim>\<open>withdraw\<close>, \<^verbatim>\<open>transfer\<close> or
  \<^verbatim>\<open>change_pin\<close> fails, the state is the one it started from: the same dictionary (no
  balance, ledger or PIN touched) and the same file (nothing saved).
\<close>

theorem failure_changes_nothing:
  "(snd (create_account w acct_no nm p ib now) = Failed e
      \<longrightarrow> fst (create_account w acct_no nm p ib now) = w)
   \<and> (snd (deposit w acct_no inp now) = Failed e
      \<longrightarrow> fst (deposit w acct_no inp now) = w)
   \<and> (snd (withdraw w acct_no inp now) = Failed e
      \<longrightarrow> fst (withdraw w acct_no inp now) = w)
   \<and> (snd (transfer w acct_no to_acct inp now now2) = Failed e
      \<longrightarrow> fst (transfer w acct_no to_acct inp now now2) = w)
   \<and> (snd (change_pin digit w acct_no old new confirm now) = Failed e
      \<longrightarrow> fst (change_pin digit w acct_no old new confirm now) = w)"
proof (intro conjI impI)
  assume "snd (create_account w acct_no nm p ib now) = Failed e"
  then show "fst (create_account w acct_no nm p ib now) = w"
    by (cases "accounts w acct_no") (auto simp: create_account_fresh, simp add: create_account_def domIff)
next
  assume "snd (deposit w acct_no inp now) = Failed e"
  then show "fst (deposit w acct_no inp now) = w"
    by (auto simp: deposit_def add_transaction_Some split: option.splits if_splits)
next
  assume "snd (withdraw w acct_no inp now) = Failed e"
  then show "fst (withdraw w acct_no inp now) = w"
    by (auto simp: withdraw_def add_transaction_Some split: option.splits if_splits)
next
  assume "snd (transfer w acct_no to_acct inp now now2) = Failed e"
  then show "fst (transfer w acct_no to_acct inp now now2) = w"
    by (auto simp: transfer_def add_transaction_Some domIff Let_def
        split: option.splits if_splits)
next
  assume "snd (change_pin digit w acct_no old new confirm now) = Failed e"
  then show "fst (change_pin digit w acct_no old new confirm now) = w"
    by (auto simp: change_pin_def add_transaction_Some split: option.splits if_splits)
qed

theorem failure_changes_nothing_witness:
  "snd (create_account demo_world (py ''1001'') (py ''Mallory'') (py ''0000'') None
      (py ''2024-01-01 10:00:00''))
     = Failed AlreadyExists
   \<and> fst (create_account demo_world (py ''1001'') (py ''Mallory'') (py ''0000'') None
        (py ''2024-01-01 10:00:00'')) = demo_world
   \<and> snd (deposit demo_world (py ''1001'') None
       (py ''2024-01-01 10:00:00'')) = Failed InvalidAmount
   \<and> fst (deposit demo_world (py ''1001'') None (py ''2024-01-01 10:00:00'')) = demo_world
   \<and> snd (withdraw demo_world (py ''1001'') (Some (Fin 6000)) (py ''2024-01-01 10:00:00''))
       = Failed InsufficientFunds
   \<and> fst (withdraw demo_world (py ''1001'') (Some (Fin 6000)) (py ''2024-01-01 10:00:00''))
       = demo_world
   \<and> snd (transfer demo_world (py ''1001'') (py ''9999'') (Some (Fin 100))
       (py ''2024-01-01 10:00:00'')
        (py ''2024-01-01 10:00:01'')) = Failed UnknownDestination
   \<and> fst (transfer demo_world (py ''1001'') (py ''9999'') (Some (Fin 100))
       (py ''2024-01-01 10:00:00'')
        (py ''2024-01-01 10:00:01'')) = demo_world
   \<and> snd (change_pin two_rows_of_digits demo_world (py ''1001'') (py ''0000'')
       (py ''4321'') (py ''4321'') (py ''2024-01-01 10:00:00''))
       = Failed WrongPin
   \<and> fst (change_pin two_rows_of_digits demo_world (py ''1001'') (py ''0000'')
       (py ''4321'') (py ''4321'') (py ''2024-01-01 10:00:00''))
       = demo_world"
proof -
  have c: "snd (create_account demo_world (py ''1001'') (py ''Mallory'') (py ''0000'') None
      (py ''2024-01-01 10:00:00'')) = Failed AlreadyExists"
    by (simp add: create_account_def demo_alice domIff)
  have d: "snd (deposit demo_world (py ''1001'') None (py ''2024-01-01 10:00:00''))
      = Failed InvalidAmount"
    by (simp add: deposit_def)
  have w: "snd (withdraw demo_world (py ''1001'') (Some (Fin 6000)) (py ''2024-01-01 10:00:00''))
      = Failed InsufficientFunds"
    by (simp add: withdraw_def demo_alice zero_pyfloat_def)
  have none: "accounts demo_world (py ''9999'') = None"
    by (simp add: demo_world_def empty_world_def create_account_fresh)
  have t: "snd (transfer demo_world (py ''1001'') (py ''9999'') (Some (Fin 100))
      (py ''2024-01-01 10:00:00'')
      (py ''2024-01-01 10:00:01'')) = Failed UnknownDestination"
    by (simp add: transfer_def none domIff)
  have p: "snd (change_pin two_rows_of_digits demo_world (py ''1001'') (py ''0000'')
      (py ''4321'') (py ''4321'')
      (py ''2024-01-01 10:00:00'')) = Failed WrongPin"
    by (simp add: change_pin_def demo_alice)
  show ?thesis
    using c d w t p
      failure_changes_nothing [of demo_world "py ''1001''" "py ''Mallory''" "py ''0000''" None
        "py ''2024-01-01 10:00:00''" AlreadyExists]
      failure_changes_nothing [of demo_world "py ''1001''" _ _ _ "py ''2024-01-01 10:00:00''"
        InvalidAmount None]
      failure_changes_nothing [of demo_world "py ''1001''" _ _ _ "py ''2024-01-01 10:00:00''"
        InsufficientFunds "Some (Fin 6000)"]
      failure_changes_nothing [of demo_world "py ''1001''" _ _ _ "py ''2024-01-01 10:00:00''"
        UnknownDestination "Some (Fin 100)" "py ''9999''" "py ''2024-01-01 10:00:01''"]
      failure_changes_nothing [of demo_world "py ''1001''" _ _ _ "py ''2024-01-01 10:00:00''"
        WrongPin _ _ _ two_rows_of_digits "py ''0000''" "py ''4321''" "py ''4321''"]
    by simp
qed

section \<open>Creation of an account\<close>

text \<open>
  Claim C9. For an account number already in the dictionary, \<^verbatim>\<open>create_account\<close> fails
  with \<open>AlreadyExists\<close> and leaves the dictionary and the file as they were. For a new
  account number it inserts an account with the given name and PIN and the given
  initial balance, 0 by default, whose ledger is exactly one \<^verbatim>\<open>Account Created\<close> entry
  with amount 0, and the file then holds the dump of the dictionary with that entry in
  it.
\<close>

theorem create_account_correct:
  "(acct_no \<in> dom (accounts w) \<longrightarrow>
      create_account w acct_no nm p ib now = (w, Failed AlreadyExists))
   \<and> (acct_no \<notin> dom (accounts w) \<longrightarrow>
      (\<exists>w' e. create_account w acct_no nm p ib now = (w', Done)
         \<and> accounts w' = (accounts w)(acct_no \<mapsto>
              \<lparr>name = nm, pin = p, balance = (case ib of None \<Rightarrow> 0 | Some x \<Rightarrow> x),
               transactions = [e]\<rparr>)
         \<and> tx_type e = py ''Account Created'' \<and> tx_amount e = 0
         \<and> tx_balance e = (case ib of None \<Rightarrow> 0 | Some x \<Rightarrow> x)
         \<and> snapshot w' = Some (Document (json_dump (accounts w')))))"
proof (cases "accounts w acct_no")
  case None
  let ?e = "\<lparr>tx_time = now, tx_type = py ''Account Created'', tx_amount = 0,
    tx_remark = py ''Initial account setup'',
    tx_balance = (case ib of None \<Rightarrow> 0 | Some x \<Rightarrow> x)\<rparr>"
  from None show ?thesis
    by (simp add: create_account_fresh domIff) (rule exI [where x = ?e], simp)
next
  case (Some a)
  then show ?thesis by (simp add: create_account_def domIff)
qed

theorem create_account_correct_witness:
  "py ''1001'' \<in> dom (accounts demo_world)
   \<and> create_account demo_world (py ''1001'') (py ''Mallory'') (py ''0000'') None
       (py ''2024-01-01 10:00:00'')
       = (demo_world, Failed AlreadyExists)
   \<and> (py ''2001'') \<notin> dom (accounts demo_world)
   \<and> snd (create_account demo_world (py ''2001'') (py ''Eve'') (py ''5678'') None
       (py ''2024-01-01 10:00:00''))
       = Done
   \<and> map_option balance
        (accounts (fst (create_account demo_world (py ''2001'') (py ''Eve'') (py ''5678'') None
           (py ''2024-01-01 10:00:00''))) (py ''2001'')) = Some 0
   \<and> map_option (map tx_type \<circ> transactions)
        (accounts (fst (create_account demo_world (py ''2001'') (py ''Eve'') (py ''5678'') None
           (py ''2024-01-01 10:00:00''))) (py ''2001'')) = Some [py ''Account Created'']"
proof -
  have in_dom: "py ''1001'' \<in> dom (accounts demo_world)"
    by (simp add: demo_alice domIff)
  have fresh: "py ''2001'' \<notin> dom (accounts demo_world)"
    by (simp add: demo_world_def empty_world_def create_account_fresh domIff)
  show ?thesis
    using in_dom fresh
      create_account_correct [of "py ''1001''" demo_world "py ''Mallory''" "py ''0000''" None
        "py ''2024-01-01 10:00:00''"]
      create_account_correct [of "py ''2001''" demo_world "py ''Eve''" "py ''5678''" None
        "py ''2024-01-01 10:00:00''"]
    by auto
qed

section \<open>Saving and loading\<close>



text \<open>Before the first save there is no file, and the dictionary loaded is empty.\<close>

lemma load_accounts_missing: "load_accounts empty_world = Inr Map.empty"
  by (simp add: load_accounts_def empty_world_def)

end
